theory Spec2Isabelle
  imports Complex_Main
begin

section \<open>Strings and character classes\<close>

text \<open>
  The component \<^verbatim>\<open>src/components/map-view.tsx\<close> works on JavaScript strings. They are
  modelled as \<^typ>\<open>string\<close>, read as ASCII text: every character class the source
  uses (\<^verbatim>\<open>[0-9a-fA-F]\<close>, \<^verbatim>\<open>\b\<close>, \<^verbatim>\<open>#\<close>) is an ASCII class, and a character
  outside ASCII belongs to none of them.
\<close>

definition upper_letters :: string where
  "upper_letters = ''ABCDEFGHIJKLMNOPQRSTUVWXYZ''"

definition lower_letters :: string where
  "lower_letters = ''abcdefghijklmnopqrstuvwxyz''"

definition digits :: string where
  "digits = ''0123456789''"

definition hex_digits :: string where
  "hex_digits = ''0123456789abcdefABCDEF''"

definition lower_char :: "char \<Rightarrow> char" where
  "lower_char c = (case map_of (zip upper_letters lower_letters) c of Some d \<Rightarrow> d | None \<Rightarrow> c)"

text \<open>\<^verbatim>\<open>s.toLowerCase()\<close> on ASCII text.\<close>

definition toLowerCase :: "string \<Rightarrow> string" where
  "toLowerCase s = map lower_char s"

text \<open>The class \<^verbatim>\<open>[0-9a-fA-F]\<close>.\<close>

definition is_hex :: "char \<Rightarrow> bool" where
  "is_hex c \<longleftrightarrow> c \<in> set hex_digits"

text \<open>The class \<^verbatim>\<open>\w\<close>, which decides the word boundary \<^verbatim>\<open>\b\<close>.\<close>

definition is_word :: "char \<Rightarrow> bool" where
  "is_word c \<longleftrightarrow> c \<in> set (upper_letters @ lower_letters @ digits @ ''_'')"

text \<open>
  \<^verbatim>\<open>\b\<close> between the character \<open>prev\<close> and the rest of the input: exactly one of the
  two sides is a word character (the end of the input is not one).
\<close>

definition word_boundary :: "char \<Rightarrow> string \<Rightarrow> bool" where
  "word_boundary prev rest \<longleftrightarrow>
     is_word prev \<noteq> (case rest of [] \<Rightarrow> False | c # _ \<Rightarrow> is_word c)"

text \<open>\<^verbatim>\<open>[0-9a-fA-F]{n}\<close> at the start of \<open>s\<close>.\<close>

definition hex_run :: "nat \<Rightarrow> string \<Rightarrow> bool" where
  "hex_run n s \<longleftrightarrow> n \<le> length s \<and> list_all is_hex (take n s)"

section \<open>The palette\<close>

text \<open>
  \<^verbatim>\<open>DEFAULT_COLORS\<close> is an object with 26 fixed keys; \<^verbatim>\<open>ColorKey\<close> is the type of its
  keys. The source reads and writes it by computed key (\<^verbatim>\<open>colors[k]\<close>,
  \<^verbatim>\<open>next[COLOR_KEYS_IN_ORDER[i]] = hex\<close>), so a palette is a function from keys to
  colour strings.
\<close>

datatype ColorKey =
    Bg | Water | WaterLine | Park | Grass | Wood | Sand | Glacier
  | Residential | Commercial | Industrial | Building | Aeroway | Boundary
  | Motorway | MotorwayCasing | Trunk | TrunkCasing | Primary | PrimaryCasing
  | Secondary | SecondaryCasing | Minor | MinorCasing | Path | Rail

type_synonym Colors = "ColorKey \<Rightarrow> string"

fun DEFAULT_COLORS :: Colors where
  "DEFAULT_COLORS Bg = ''#e8edda''"
| "DEFAULT_COLORS Water = ''#7ec8e3''"
| "DEFAULT_COLORS WaterLine = ''#68b8d8''"
| "DEFAULT_COLORS Park = ''#c0d490''"
| "DEFAULT_COLORS Grass = ''#c8d9a0''"
| "DEFAULT_COLORS Wood = ''#a8c078''"
| "DEFAULT_COLORS Sand = ''#e8e0c0''"
| "DEFAULT_COLORS Glacier = ''#ddf0f8''"
| "DEFAULT_COLORS Residential = ''#e4e0d4''"
| "DEFAULT_COLORS Commercial = ''#dedad0''"
| "DEFAULT_COLORS Industrial = ''#d4cfc4''"
| "DEFAULT_COLORS Building = ''#d8d2c4''"
| "DEFAULT_COLORS Aeroway = ''#dcd8cc''"
| "DEFAULT_COLORS Boundary = ''#b8a888''"
| "DEFAULT_COLORS Motorway = ''#fcd577''"
| "DEFAULT_COLORS MotorwayCasing = ''#c8a030''"
| "DEFAULT_COLORS Trunk = ''#fce090''"
| "DEFAULT_COLORS TrunkCasing = ''#c8b040''"
| "DEFAULT_COLORS Primary = ''#ffffff''"
| "DEFAULT_COLORS PrimaryCasing = ''#ccc8b8''"
| "DEFAULT_COLORS Secondary = ''#ffffff''"
| "DEFAULT_COLORS SecondaryCasing = ''#d4d0c0''"
| "DEFAULT_COLORS Minor = ''#f4f2ec''"
| "DEFAULT_COLORS MinorCasing = ''#dcdad0''"
| "DEFAULT_COLORS Path = ''#d8d4c8''"
| "DEFAULT_COLORS Rail = ''#c8c4b8''"

text \<open>\<^verbatim>\<open>COLOR_GROUPS\<close>: the groups of the theme dialog, each a label and its items (key, label).\<close>

definition COLOR_GROUPS :: "(string \<times> (ColorKey \<times> string) list) list" where
  "COLOR_GROUPS =
    [(''Base'',
        [(Bg, ''Land''), (Water, ''Water''), (WaterLine, ''Waterways'')]),
     (''Nature'',
        [(Park, ''Parks''), (Grass, ''Grass''), (Wood, ''Forest''),
         (Sand, ''Sand / Beach''), (Glacier, ''Glacier / Snow'')]),
     (''Urban'',
        [(Residential, ''Residential''), (Commercial, ''Commercial''),
         (Industrial, ''Industrial''), (Building, ''Buildings''),
         (Aeroway, ''Airport / Runway''), (Boundary, ''Boundaries'')]),
     (''Roads'',
        [(Motorway, ''Motorway''), (MotorwayCasing, ''Motorway outline''),
         (Trunk, ''Trunk road''), (TrunkCasing, ''Trunk outline''),
         (Primary, ''Primary road''), (PrimaryCasing, ''Primary outline''),
         (Secondary, ''Secondary road''), (SecondaryCasing, ''Secondary outline''),
         (Minor, ''Minor road''), (MinorCasing, ''Minor outline''),
         (Path, ''Path / Footway''), (Rail, ''Railway'')])]"

text \<open>\<^verbatim>\<open>COLOR_GROUPS.flatMap(g => g.items.map(i => i.key))\<close>\<close>

definition COLOR_KEYS_IN_ORDER :: "ColorKey list" where
  "COLOR_KEYS_IN_ORDER = concat (map (\<lambda>g. map fst (snd g)) COLOR_GROUPS)"

subsection \<open>Single-key edits\<close>

text \<open>\<^verbatim>\<open>setColors(prev => ({ ...prev, [key]: value }))\<close>\<close>

definition updateColor :: "ColorKey \<Rightarrow> string \<Rightarrow> Colors \<Rightarrow> Colors" where
  "updateColor key v prev = prev(key := v)"

text \<open>\<^verbatim>\<open>/^#[0-9a-fA-F]{n}$/.test(v)\<close>, for the two tests of \<^verbatim>\<open>handleHexChange\<close>.\<close>

definition test_hex :: "nat \<Rightarrow> string \<Rightarrow> bool" where
  "test_hex n v \<longleftrightarrow>
     (case v of [] \<Rightarrow> False | h # ds \<Rightarrow> h = CHR ''#'' \<and> length ds = n \<and> list_all is_hex ds)"

text \<open>
  The state a hex text field works on: the local text \<^verbatim>\<open>hexInput\<close> of its row and the
  palette \<^verbatim>\<open>colors\<close> of the view. \<^verbatim>\<open>handleHexChange\<close> always stores the typed text in
  \<^verbatim>\<open>hexInput\<close>, and calls \<^verbatim>\<open>onChange\<close> (which is \<^verbatim>\<open>updateColor\<close>) with the text as typed
  only when one of the two tests accepts it.
\<close>

record row_state =
  hexInput :: string
  colors :: Colors

definition handleHexChange :: "ColorKey \<Rightarrow> string \<Rightarrow> row_state \<Rightarrow> row_state" where
  "handleHexChange colorKey v s =
     (let s1 = s\<lparr>hexInput := v\<rparr> in
      if test_hex 3 v \<or> test_hex 6 v
      then s1\<lparr>colors := updateColor colorKey v (colors s1)\<rparr>
      else s1)"

subsection \<open>Bulk import and export\<close>

text \<open>
  One attempt of \<^verbatim>\<open>/#[0-9a-fA-F]{3}(?:[0-9a-fA-F]{3})?\b/\<close> at the start of \<open>s\<close>, giving
  the length of the match. The optional group is greedy: the six-digit reading is tried
  first, and the matcher falls back to three digits when the group or the boundary after
  it fails.
\<close>

definition match_hex_token :: "string \<Rightarrow> nat option" where
  "match_hex_token s =
     (case s of
        [] \<Rightarrow> None
      | h # t \<Rightarrow>
          if h = CHR ''#'' \<and> hex_run 3 t then
            if hex_run 3 (drop 3 t) \<and> word_boundary (t ! 5) (drop 6 t) then Some 7
            else if word_boundary (t ! 2) (drop 3 t) then Some 4
            else None
          else None)"

text \<open>
  \<^verbatim>\<open>raw.match(/.../g) ?? []\<close>: all matches from left to right, each search starting
  where the previous match ended, and one character further after a failed attempt.
\<close>

function match_all :: "string \<Rightarrow> string list" where
  "match_all [] = []"
| "match_all (c # cs) =
     (case match_hex_token (c # cs) of
        Some n \<Rightarrow> take n (c # cs) # match_all (drop n (c # cs))
      | None \<Rightarrow> match_all cs)"
  by pat_completeness auto
termination
  by (relation "measure length") (auto simp: match_hex_token_def split: if_splits)

text \<open>
  The callback of \<^verbatim>\<open>.map\<close> on the matches: a four-character match \<^verbatim>\<open>#abc\<close> has each
  digit doubled, any other match is lowercased.
\<close>

definition expand_token :: "string \<Rightarrow> string" where
  "expand_token h =
     (if length h = 4 then [CHR ''#'', h ! 1, h ! 1, h ! 2, h ! 2, h ! 3, h ! 3]
      else toLowerCase h)"

text \<open>\<^verbatim>\<open>stripped.match(/.{6}/g) ?? []\<close> on a string of hex digits: consecutive groups of six.\<close>

fun chunk6 :: "string \<Rightarrow> string list" where
  "chunk6 (a # b # c # d # e # f # rest) = [a, b, c, d, e, f] # chunk6 rest"
| "chunk6 _ = []"

text \<open>
  The list \<^verbatim>\<open>hexes\<close> of \<^verbatim>\<open>applyBulkString\<close>: the \<^verbatim>\<open>#\<close>-prefixed codes, and when there
  are none, the six-character groups of the input with every non-hex character removed.
\<close>

definition bulk_hexes :: "string \<Rightarrow> string list" where
  "bulk_hexes raw =
     (let hexes = map expand_token (match_all raw) in
      if length hexes = 0
      then (let stripped = filter is_hex raw
            in map (\<lambda>h. CHR ''#'' # toLowerCase h) (chunk6 stripped))
      else hexes)"

text \<open>
  \<^verbatim>\<open>hexes.slice(0, n).forEach((hex, i) => { next[COLOR_KEYS_IN_ORDER[i]] = hex; })\<close>,
  with \<open>i\<close> the index of the next element.
\<close>

fun assign_hexes :: "nat \<Rightarrow> string list \<Rightarrow> Colors \<Rightarrow> Colors" where
  "assign_hexes i [] next = next"
| "assign_hexes i (hex # hexes) next =
     assign_hexes (Suc i) hexes (next(COLOR_KEYS_IN_ORDER ! i := hex))"

text \<open>\<^verbatim>\<open>applyBulkString\<close>, as a function of the palette it is applied to.\<close>

definition applyBulkString :: "string \<Rightarrow> Colors \<Rightarrow> Colors" where
  "applyBulkString raw prev =
     (let hexes = bulk_hexes raw in
      if length hexes = 0 then prev
      else assign_hexes 0 (take (length COLOR_KEYS_IN_ORDER) hexes) prev)"

text \<open>\<^verbatim>\<open>copyPalette\<close>: the string written to the clipboard, \<^verbatim>\<open>.join(" ")\<close> of the values.\<close>

fun join_space :: "string list \<Rightarrow> string" where
  "join_space [] = []"
| "join_space [x] = x"
| "join_space (x # y # ys) = x @ '' '' @ join_space (y # ys)"

definition copyPalette :: "Colors \<Rightarrow> string" where
  "copyPalette cols = join_space (map cols COLOR_KEYS_IN_ORDER)"

section \<open>The style theming engine\<close>

text \<open>
  A value of a paint block, as the style document (JSON) has it. The constants the source
  writes (\<^verbatim>\<open>1\<close>, \<^verbatim>\<open>0.7\<close>, \<^verbatim>\<open>0.85\<close>, ...) are decimal literals, kept exactly.
\<close>

datatype json =
    JNull | JBool bool | JNum rat | JStr string | JArr "json list" | JObj "(string \<times> json) list"

text \<open>
  A paint block is an object from property names to values. The spread
  \<^verbatim>\<open>{ ...p, k: v }\<close> is \<open>p(k \<mapsto> v)\<close>, and the literal \<^verbatim>\<open>{ k: v }\<close> is \<open>[k \<mapsto> v]\<close>.
\<close>

type_synonym paint_block = "string \<rightharpoonup> json"

text \<open>
  A layer of the raw style: the four fields \<^verbatim>\<open>applyAppleStyle\<close> reads, each absent
  (\<^verbatim>\<open>null\<close> or \<^verbatim>\<open>undefined\<close>) or present, and every other field in the record's
  extension, which \<^verbatim>\<open>{ ...layer, paint: ... }\<close> copies unchanged.
\<close>

record layer =
  layer_id :: "string option"
  source_layer :: "string option"
  layer_type :: string
  paint :: "paint_block option"

record 'a style =
  layers :: "'a layer_scheme list"

text \<open>\<^verbatim>\<open>s.startsWith(p)\<close> and \<^verbatim>\<open>s.includes(sub)\<close>\<close>

fun startsWith :: "string \<Rightarrow> string \<Rightarrow> bool" where
  "startsWith s [] = True"
| "startsWith [] (p # ps) = False"
| "startsWith (c # cs) (p # ps) = (c = p \<and> startsWith cs ps)"

fun includes_str :: "string \<Rightarrow> string \<Rightarrow> bool" where
  "includes_str [] sub = (sub = [])"
| "includes_str (c # cs) sub = (startsWith (c # cs) sub \<or> includes_str cs sub)"

text \<open>\<^verbatim>\<open>String(x ?? "").toLowerCase()\<close>, for the constants \<^verbatim>\<open>id\<close> and \<^verbatim>\<open>src\<close> of a layer.\<close>

definition lower_or_empty :: "string option \<Rightarrow> string" where
  "lower_or_empty x = toLowerCase (case x of None \<Rightarrow> [] | Some s \<Rightarrow> s)"

definition id_of :: "'a layer_scheme \<Rightarrow> string" where
  "id_of layer = lower_or_empty (layer_id layer)"

definition src_of :: "'a layer_scheme \<Rightarrow> string" where
  "src_of layer = lower_or_empty (source_layer layer)"

text \<open>\<^verbatim>\<open>{ ...(layer.paint ?? {}) }\<close>: the copy of the raw paint block that \<^verbatim>\<open>l.paint\<close> starts as.\<close>

definition paint_of :: "'a layer_scheme \<Rightarrow> paint_block" where
  "paint_of layer = (case paint layer of None \<Rightarrow> Map.empty | Some p \<Rightarrow> p)"

text \<open>
  The callback of \<^verbatim>\<open>.map\<close> in \<^verbatim>\<open>applyAppleStyle\<close>, branch by branch in the source's
  order. \<open>lid\<close>, \<open>src\<close>, \<open>t\<close> and \<open>l\<close> are the source's \<^verbatim>\<open>id\<close>, \<^verbatim>\<open>src\<close>, \<^verbatim>\<open>t\<close> and \<^verbatim>\<open>l\<close>;
  \<open>p\<close> is \<^verbatim>\<open>l.paint\<close> before any assignment.
\<close>

definition theme_layer :: "Colors \<Rightarrow> 'a layer_scheme \<Rightarrow> 'a layer_scheme" where
  "theme_layer C layer =
    (let lid = id_of layer;
         src = src_of layer;
         t = layer_type layer;
         p = paint_of layer;
         l = layer\<lparr>paint := Some p\<rparr>
     in
     if t = ''background'' then
       l\<lparr>paint := Some [''background-color'' \<mapsto> JStr (C Bg)]\<rparr>
     else if src = ''water'' \<and> t = ''fill'' then
       l\<lparr>paint := Some [''fill-color'' \<mapsto> JStr (C Water), ''fill-opacity'' \<mapsto> JNum 1]\<rparr>
     else if src = ''waterway'' \<and> t = ''line'' then
       l\<lparr>paint := Some (p(''line-color'' \<mapsto> JStr (C WaterLine)))\<rparr>
     else if src = ''landcover'' \<and> t = ''fill'' then
       (if includes_str lid ''grass'' \<or> includes_str lid ''meadow'' then
          l\<lparr>paint := Some (p(''fill-color'' \<mapsto> JStr (C Grass), ''fill-opacity'' \<mapsto> JNum 0.7))\<rparr>
        else if includes_str lid ''wood'' \<or> includes_str lid ''forest'' \<or> includes_str lid ''tree'' then
          l\<lparr>paint := Some (p(''fill-color'' \<mapsto> JStr (C Wood), ''fill-opacity'' \<mapsto> JNum 0.8))\<rparr>
        else if includes_str lid ''sand'' \<or> includes_str lid ''beach'' then
          l\<lparr>paint := Some (p(''fill-color'' \<mapsto> JStr (C Sand)))\<rparr>
        else if includes_str lid ''glacier'' \<or> includes_str lid ''ice'' \<or> includes_str lid ''snow'' then
          l\<lparr>paint := Some (p(''fill-color'' \<mapsto> JStr (C Glacier)))\<rparr>
        else l)
     else if src = ''landuse'' \<and> t = ''fill'' then
       (if includes_str lid ''park'' \<or> includes_str lid ''garden'' \<or> includes_str lid ''recreation''
            \<or> includes_str lid ''cemetery'' \<or> includes_str lid ''grass'' then
          l\<lparr>paint := Some (p(''fill-color'' \<mapsto> JStr (C Park), ''fill-opacity'' \<mapsto> JNum 0.8))\<rparr>
        else if includes_str lid ''wood'' \<or> includes_str lid ''forest'' then
          l\<lparr>paint := Some (p(''fill-color'' \<mapsto> JStr (C Wood), ''fill-opacity'' \<mapsto> JNum 0.7))\<rparr>
        else if includes_str lid ''residential'' then
          l\<lparr>paint := Some (p(''fill-color'' \<mapsto> JStr (C Residential)))\<rparr>
        else if includes_str lid ''commercial'' \<or> includes_str lid ''retail'' then
          l\<lparr>paint := Some (p(''fill-color'' \<mapsto> JStr (C Commercial)))\<rparr>
        else if includes_str lid ''industrial'' then
          l\<lparr>paint := Some (p(''fill-color'' \<mapsto> JStr (C Industrial)))\<rparr>
        else l)
     else if (src = ''park'' \<or> startsWith lid ''park'') \<and> t = ''fill'' then
       l\<lparr>paint := Some (p(''fill-color'' \<mapsto> JStr (C Park), ''fill-opacity'' \<mapsto> JNum 0.8))\<rparr>
     else if src = ''building'' then
       (if t = ''fill'' then
          l\<lparr>paint := Some [''fill-color'' \<mapsto> JStr (C Building), ''fill-opacity'' \<mapsto> JNum 1]\<rparr>
        else if t = ''fill-extrusion'' then
          l\<lparr>paint := Some [''fill-extrusion-color'' \<mapsto> JStr (C Building),
                            ''fill-extrusion-opacity'' \<mapsto> JNum 0.85]\<rparr>
        else l)
     else if src = ''aeroway'' \<and> t = ''fill'' then
       l\<lparr>paint := Some (p(''fill-color'' \<mapsto> JStr (C Aeroway)))\<rparr>
     else if src = ''transportation'' \<and> t = ''line'' then
       (let casing = (includes_str lid ''casing'' \<or> includes_str lid ''_case''
                      \<or> includes_str lid ''outline'') in
        if includes_str lid ''motorway'' then
          l\<lparr>paint := Some (p(''line-color'' \<mapsto>
                 JStr (if casing then C MotorwayCasing else C Motorway)))\<rparr>
        else if includes_str lid ''trunk'' then
          l\<lparr>paint := Some (p(''line-color'' \<mapsto>
                 JStr (if casing then C TrunkCasing else C Trunk)))\<rparr>
        else if includes_str lid ''primary'' then
          l\<lparr>paint := Some (p(''line-color'' \<mapsto>
                 JStr (if casing then C PrimaryCasing else C Primary)))\<rparr>
        else if includes_str lid ''secondary'' \<or> includes_str lid ''tertiary'' then
          l\<lparr>paint := Some (p(''line-color'' \<mapsto>
                 JStr (if casing then C SecondaryCasing else C Secondary)))\<rparr>
        else if includes_str lid ''path'' \<or> includes_str lid ''track''
                \<or> includes_str lid ''pedestrian'' \<or> includes_str lid ''footway''
                \<or> includes_str lid ''cycleway'' then
          l\<lparr>paint := Some (p(''line-color'' \<mapsto> JStr (C Path)))\<rparr>
        else if includes_str lid ''rail'' \<or> includes_str lid ''transit'' then
          l\<lparr>paint := Some (p(''line-color'' \<mapsto> JStr (C Rail)))\<rparr>
        else
          l\<lparr>paint := Some (p(''line-color'' \<mapsto>
                 JStr (if casing then C MinorCasing else C Minor)))\<rparr>)
     else if src = ''boundary'' \<and> t = ''line'' then
       l\<lparr>paint := Some (p(''line-color'' \<mapsto> JStr (C Boundary), ''line-opacity'' \<mapsto> JNum 0.6))\<rparr>
     else l)"

text \<open>
  \<^verbatim>\<open>applyAppleStyle\<close>: the layers that are not of type \<^verbatim>\<open>symbol\<close>, each themed, in a
  copy of the raw document (\<^verbatim>\<open>{ ...raw, layers }\<close>).
\<close>

definition applyAppleStyle :: "('a, 'b) style_scheme \<Rightarrow> Colors \<Rightarrow> ('a, 'b) style_scheme" where
  "applyAppleStyle raw C =
     raw\<lparr>layers := map (theme_layer C) (filter (\<lambda>l. layer_type l \<noteq> ''symbol'') (layers raw))\<rparr>"

section \<open>Continuous keyboard navigation\<close>

text \<open>
  The rendering surface is external. Of it the model keeps the zoom that \<^verbatim>\<open>getZoom\<close>
  reads and the list of camera commands issued so far: \<^verbatim>\<open>panBy([dx, dy], ...)\<close> and
  \<^verbatim>\<open>zoomTo(z, ...)\<close>. Zoom levels are kept as exact decimals where the source adds
  doubles; the properties below count the commands and compare each target with the zoom
  before it, and do not depend on the last digits of a target.
\<close>

datatype command = PanBy int int | ZoomTo rat

record surface =
  zoom :: rat
  issued :: "command list"

definition panBy :: "int \<times> int \<Rightarrow> surface \<Rightarrow> surface" where
  "panBy d m = m\<lparr>issued := issued m @ [PanBy (fst d) (snd d)]\<rparr>"

definition zoomTo :: "rat \<Rightarrow> surface \<Rightarrow> surface" where
  "zoomTo z m = m\<lparr>zoom := z, issued := issued m @ [ZoomTo z]\<rparr>"

definition getZoom :: "surface \<Rightarrow> rat" where
  "getZoom m = zoom m"

definition PAN :: int where
  "PAN = 5"

definition ZOOM :: rat where
  "ZOOM = 0.03"

text \<open>
  One run of \<^verbatim>\<open>tick\<close>, on the surface \<^verbatim>\<open>mapRef.current?.getMap()\<close> (absent before the
  map is mounted) and the held keys \<^verbatim>\<open>keysRef.current\<close>. The last statement of the
  source requests the next animation frame and sends nothing to the surface.
\<close>

definition tick :: "surface option \<Rightarrow> string set \<Rightarrow> surface option" where
  "tick mp keys =
     (case mp of
        None \<Rightarrow> None
      | Some m \<Rightarrow>
          if keys \<noteq> {} then
            (let dy0 = (if ''ArrowUp'' \<in> keys then 0 - PAN else 0);
                 dy = (if ''ArrowDown'' \<in> keys then dy0 + PAN else dy0);
                 dx0 = (if ''ArrowLeft'' \<in> keys then 0 - PAN else 0);
                 dx = (if ''ArrowRight'' \<in> keys then dx0 + PAN else dx0);
                 m1 = (if dx \<noteq> 0 \<or> dy \<noteq> 0 then panBy (dx, dy) m else m);
                 m2 = (if ''+'' \<in> keys \<or> ''='' \<in> keys then zoomTo (getZoom m1 + ZOOM) m1 else m1);
                 m3 = (if ''-'' \<in> keys then zoomTo (getZoom m2 - ZOOM) m2 else m2)
             in Some m3)
          else Some m)"

text \<open>The commands one tick adds to the surface's list.\<close>

definition tick_commands :: "surface \<Rightarrow> string set \<Rightarrow> command list" where
  "tick_commands m keys =
     (case tick (Some m) keys of None \<Rightarrow> [] | Some m' \<Rightarrow> drop (length (issued m)) (issued m'))"

fun is_pan :: "command \<Rightarrow> bool" where
  "is_pan (PanBy _ _) = True"
| "is_pan (ZoomTo _) = False"

fun is_zoom :: "command \<Rightarrow> bool" where
  "is_zoom (ZoomTo _) = True"
| "is_zoom (PanBy _ _) = False"

text \<open>
  The zoom-in and the zoom-out commands of a list of commands issued to a surface whose
  zoom is \<open>z\<close>: a \<^verbatim>\<open>zoomTo\<close> zooms in when its target is above the zoom the surface has
  when the command is issued, and out when it is below. The next command meets the
  surface at the target of the one before.
\<close>

fun zoom_ins :: "rat \<Rightarrow> command list \<Rightarrow> nat" where
  "zoom_ins z [] = 0"
| "zoom_ins z (PanBy dx dy # cs) = zoom_ins z cs"
| "zoom_ins z (ZoomTo z' # cs) = (if z < z' then 1 else 0) + zoom_ins z' cs"

fun zoom_outs :: "rat \<Rightarrow> command list \<Rightarrow> nat" where
  "zoom_outs z [] = 0"
| "zoom_outs z (PanBy dx dy # cs) = zoom_outs z cs"
| "zoom_outs z (ZoomTo z' # cs) = (if z' < z then 1 else 0) + zoom_outs z' cs"

section \<open>The capture pipeline\<close>

text \<open>
  The state \<^verbatim>\<open>capture\<close> works on: the flags \<^verbatim>\<open>isCapturing\<close> and \<^verbatim>\<open>captured\<close>, the
  downloads triggered so far (\<^verbatim>\<open>a.click()\<close>, one blob each) and the number of pending
  \<^verbatim>\<open>setTimeout(() => setCaptured(false), 2000)\<close> timers.
\<close>

record 'b capture_state =
  isCapturing :: bool
  captured :: bool
  downloads :: "'b list"
  pending_clear :: nat

text \<open>
  \<^verbatim>\<open>capture\<close> up to the request of the animation frame: nothing happens without a map,
  otherwise the capturing flag is set.
\<close>

definition capture :: "bool \<Rightarrow> 'b capture_state \<Rightarrow> 'b capture_state" where
  "capture has_map s = (if \<not> has_map then s else s\<lparr>isCapturing := True\<rparr>)"

text \<open>
  The callback handed to \<^verbatim>\<open>out.toBlob\<close>, called with the encoded image or with \<^verbatim>\<open>null\<close>
  when the canvas cannot be encoded. The frame callback before it only draws the crop
  onto the output canvas and changes none of the state.
\<close>

definition toBlob_callback :: "'b option \<Rightarrow> 'b capture_state \<Rightarrow> 'b capture_state" where
  "toBlob_callback blob s =
     (case blob of
        None \<Rightarrow> s
      | Some b \<Rightarrow>
          s\<lparr>downloads := downloads s @ [b], isCapturing := False, captured := True,
            pending_clear := pending_clear s + 1\<rparr>)"

text \<open>The timer set after a successful capture: \<^verbatim>\<open>() => setCaptured(false)\<close>.\<close>

definition captured_timeout :: "'b capture_state \<Rightarrow> 'b capture_state" where
  "captured_timeout s = s\<lparr>captured := False, pending_clear := pending_clear s - 1\<rparr>"

section \<open>Debounced search\<close>














section \<open>Selection visibility tracking\<close>

text \<open>
  The state \<^verbatim>\<open>handleMove\<close> works on: the mirrored view state, the name of the selected
  place, and the refs \<^verbatim>\<open>searchedCoordsRef\<close> and \<^verbatim>\<open>flyingRef\<close>. A coordinate is a pair
  (longitude, latitude).
\<close>

type_synonym lnglat = "rat \<times> rat"

record 'v selection_state =
  viewState :: 'v
  selectedName :: "string option"
  searchedCoords :: "lnglat option"
  flying :: bool

text \<open>
  \<^verbatim>\<open>handleMove\<close> for a move event carrying the view state \<open>v\<close>. The second argument is
  the map \<^verbatim>\<open>mapRef.current?.getMap()\<close> at that moment, given by the test
  \<^verbatim>\<open>map.getBounds().contains\<close> of its current bounds, or absent.
\<close>

definition handleMove ::
  "'v \<Rightarrow> (lnglat \<Rightarrow> bool) option \<Rightarrow> 'v selection_state \<Rightarrow> 'v selection_state" where
  "handleMove v mp s =
     (let s1 = s\<lparr>viewState := v\<rparr> in
      if flying s1 then s1
      else
        case searchedCoords s1 of
          None \<Rightarrow> s1
        | Some coords \<Rightarrow>
            (case mp of
               None \<Rightarrow> s1
             | Some contains \<Rightarrow>
                 if \<not> contains coords
                 then s1\<lparr>selectedName := None, searchedCoords := None\<rparr>
                 else s1))"

text \<open>The listener \<^verbatim>\<open>flyTo\<close> registers for the end of its transition.\<close>

definition moveend :: "'v selection_state \<Rightarrow> 'v selection_state" where
  "moveend s = s\<lparr>flying := False\<rparr>"

text \<open>Camera events after a selection: moves, and the end of a transition.\<close>

datatype 'v camera_event = Move 'v "(lnglat \<Rightarrow> bool) option" | MoveEnd

fun camera_step :: "'v camera_event \<Rightarrow> 'v selection_state \<Rightarrow> 'v selection_state" where
  "camera_step (Move v mp) s = handleMove v mp s"
| "camera_step MoveEnd s = moveend s"

fun camera_run :: "'v camera_event list \<Rightarrow> 'v selection_state \<Rightarrow> 'v selection_state" where
  "camera_run [] s = s"
| "camera_run (e # es) s = camera_run es (camera_step e s)"

section \<open>Properties of the palette\<close>

subsection \<open>The key order\<close>

lemma COLOR_KEYS_IN_ORDER_list:
  "COLOR_KEYS_IN_ORDER =
     [Bg, Water, WaterLine, Park, Grass, Wood, Sand, Glacier,
      Residential, Commercial, Industrial, Building, Aeroway, Boundary,
      Motorway, MotorwayCasing, Trunk, TrunkCasing, Primary, PrimaryCasing,
      Secondary, SecondaryCasing, Minor, MinorCasing, Path, Rail]"
  by (simp add: COLOR_KEYS_IN_ORDER_def COLOR_GROUPS_def)

lemma length_COLOR_KEYS_IN_ORDER: "length COLOR_KEYS_IN_ORDER = 26"
  by (simp add: COLOR_KEYS_IN_ORDER_list)

lemma distinct_COLOR_KEYS_IN_ORDER: "distinct COLOR_KEYS_IN_ORDER"
  by (simp add: COLOR_KEYS_IN_ORDER_list)

lemma set_COLOR_KEYS_IN_ORDER: "k \<in> set COLOR_KEYS_IN_ORDER"
  by (cases k) (simp_all add: COLOR_KEYS_IN_ORDER_list)

subsection \<open>The assignment loop\<close>

text \<open>
  After the loop has run from index \<open>i\<close> over \<open>hs\<close>, the key at position \<open>j\<close> holds the
  element of \<open>hs\<close> that the loop met at that index, and its old value outside the range
  of the loop. The keys are distinct, so no later step overwrites an earlier one.
\<close>

lemma assign_hexes_nth:
  "i + length hs \<le> length COLOR_KEYS_IN_ORDER \<Longrightarrow> j < length COLOR_KEYS_IN_ORDER \<Longrightarrow>
   assign_hexes i hs nxt (COLOR_KEYS_IN_ORDER ! j) =
     (if i \<le> j \<and> j < i + length hs then hs ! (j - i) else nxt (COLOR_KEYS_IN_ORDER ! j))"
proof (induction hs arbitrary: i nxt)
  case Nil
  then show ?case by auto
next
  case (Cons h hs)
  let ?K = COLOR_KEYS_IN_ORDER
  from Cons.prems have le: "Suc i + length hs \<le> length ?K" and i: "i < length ?K"
    by simp_all
  have step: "assign_hexes i (h # hs) nxt (?K ! j) =
      (if Suc i \<le> j \<and> j < Suc i + length hs then hs ! (j - Suc i)
       else (nxt(?K ! i := h)) (?K ! j))"
    using Cons.IH [OF le Cons.prems(2)] by simp
  show ?case
  proof (cases "j = i")
    case True
    then show ?thesis using step by simp
  next
    case False
    then have "?K ! j \<noteq> ?K ! i"
      using Cons.prems(2) i distinct_COLOR_KEYS_IN_ORDER by (simp add: nth_eq_iff_index_eq)
    then have upd: "(nxt(?K ! i := h)) (?K ! j) = nxt (?K ! j)" by simp
    show ?thesis
    proof (cases "i \<le> j \<and> j < i + length (h # hs)")
      case True
      with False have "Suc i \<le> j" "j < Suc i + length hs" "j - i = Suc (j - Suc i)"
        by auto
      then show ?thesis using step True by simp
    next
      case False
      then have "\<not> (Suc i \<le> j \<and> j < Suc i + length hs)" by auto
      then show ?thesis using step upd False \<open>j \<noteq> i\<close> by auto
    qed
  qed
qed


lemma applyBulkString_nth:
  assumes "bulk_hexes raw \<noteq> []" and "i < length COLOR_KEYS_IN_ORDER"
  shows "applyBulkString raw prev (COLOR_KEYS_IN_ORDER ! i) =
     (if i < length (bulk_hexes raw) then bulk_hexes raw ! i else prev (COLOR_KEYS_IN_ORDER ! i))"
proof -
  let ?hs = "take (length COLOR_KEYS_IN_ORDER) (bulk_hexes raw)"
  have "0 + length ?hs \<le> length COLOR_KEYS_IN_ORDER" by simp
  from assign_hexes_nth [OF this assms(2), of prev]
  have "assign_hexes 0 ?hs prev (COLOR_KEYS_IN_ORDER ! i) =
     (if i < length ?hs then ?hs ! i else prev (COLOR_KEYS_IN_ORDER ! i))" by simp
  then show ?thesis using assms by (simp add: applyBulkString_def)
qed


subsection \<open>Lowercasing\<close>








subsection \<open>The shape of the tokens\<close>








subsection \<open>Export followed by import\<close>

lemma copyPalette_DEFAULT_COLORS:
  "copyPalette DEFAULT_COLORS = ''#e8edda #7ec8e3 #68b8d8 #c0d490 #c8d9a0 #a8c078 #e8e0c0 #ddf0f8 #e4e0d4 #dedad0 #d4cfc4 #d8d2c4 #dcd8cc #b8a888 #fcd577 #c8a030 #fce090 #c8b040 #ffffff #ccc8b8 #ffffff #d4d0c0 #f4f2ec #dcdad0 #d8d4c8 #c8c4b8''"
  by (simp add: copyPalette_def COLOR_KEYS_IN_ORDER_list)

lemma bulk_hexes_copyPalette_DEFAULT_COLORS:
  "bulk_hexes (copyPalette DEFAULT_COLORS) = map DEFAULT_COLORS COLOR_KEYS_IN_ORDER"
  unfolding copyPalette_DEFAULT_COLORS COLOR_KEYS_IN_ORDER_list by code_simp

text \<open>
  Claim C4. The string \<^verbatim>\<open>copyPalette\<close> writes for the default palette (the values of all
  keys in the fixed key order, joined by spaces), handed to \<^verbatim>\<open>applyBulkString\<close>, gives
  back the default palette at every key. This holds when the import is applied to the
  default palette itself, and also when it is applied to any other palette \<open>prev\<close>: all
  26 values are read back from the string, none is left over from \<open>prev\<close>.
\<close>

theorem serialize_bulkApply_roundtrip:
  "applyBulkString (copyPalette DEFAULT_COLORS) DEFAULT_COLORS = DEFAULT_COLORS \<and>
   applyBulkString (copyPalette DEFAULT_COLORS) prev = DEFAULT_COLORS"
proof -
  have "applyBulkString (copyPalette DEFAULT_COLORS) p k = DEFAULT_COLORS k" for p k
  proof -
    from set_COLOR_KEYS_IN_ORDER [of k] obtain i
      where i: "i < length COLOR_KEYS_IN_ORDER" and k: "COLOR_KEYS_IN_ORDER ! i = k"
      by (auto simp: in_set_conv_nth)
    have ne: "bulk_hexes (copyPalette DEFAULT_COLORS) \<noteq> []"
      by (simp add: bulk_hexes_copyPalette_DEFAULT_COLORS COLOR_KEYS_IN_ORDER_list)
    from applyBulkString_nth [OF ne i, of p] show ?thesis
      using i k by (simp add: bulk_hexes_copyPalette_DEFAULT_COLORS)
  qed
  then show ?thesis by (simp add: fun_eq_iff)
qed

subsection \<open>Bulk import assigns in key order\<close>

text \<open>
  Claim C7. Let \<open>N\<close> be the number of tokens \<^verbatim>\<open>applyBulkString\<close> extracts from the input
  (the length of \<^verbatim>\<open>hexes\<close>). If \<open>N = 0\<close> the palette is unchanged. If \<open>N > 0\<close>, the key at
  each position \<open>i\<close> below \<open>min N 26\<close> of the fixed key order receives token \<open>i\<close>, and the
  key at each position from \<open>min N 26\<close> on keeps its previous value. The key order lists
  every key exactly once, so the positions name the keys.
\<close>

theorem bulkApply_assigns_in_key_order:
  "distinct COLOR_KEYS_IN_ORDER \<and> set COLOR_KEYS_IN_ORDER = UNIV \<and>
   (length (bulk_hexes raw) = 0 \<longrightarrow> applyBulkString raw prev = prev) \<and>
   (0 < length (bulk_hexes raw) \<longrightarrow>
      (\<forall>i. i < min (length (bulk_hexes raw)) (length COLOR_KEYS_IN_ORDER) \<longrightarrow>
         applyBulkString raw prev (COLOR_KEYS_IN_ORDER ! i) = bulk_hexes raw ! i) \<and>
      (\<forall>i. min (length (bulk_hexes raw)) (length COLOR_KEYS_IN_ORDER) \<le> i \<and>
           i < length COLOR_KEYS_IN_ORDER \<longrightarrow>
         applyBulkString raw prev (COLOR_KEYS_IN_ORDER ! i) = prev (COLOR_KEYS_IN_ORDER ! i)))"
proof -
  have "set COLOR_KEYS_IN_ORDER = UNIV" using set_COLOR_KEYS_IN_ORDER by auto
  moreover have "length (bulk_hexes raw) = 0 \<longrightarrow> applyBulkString raw prev = prev"
    by (simp add: applyBulkString_def)
  moreover have "applyBulkString raw prev (COLOR_KEYS_IN_ORDER ! i) = bulk_hexes raw ! i"
    if "0 < length (bulk_hexes raw)"
      "i < min (length (bulk_hexes raw)) (length COLOR_KEYS_IN_ORDER)" for i
    using that applyBulkString_nth [of raw i prev] by auto
  moreover have
    "applyBulkString raw prev (COLOR_KEYS_IN_ORDER ! i) = prev (COLOR_KEYS_IN_ORDER ! i)"
    if "0 < length (bulk_hexes raw)"
      "min (length (bulk_hexes raw)) (length COLOR_KEYS_IN_ORDER) \<le> i"
      "i < length COLOR_KEYS_IN_ORDER" for i
    using that applyBulkString_nth [of raw i prev] by auto
  ultimately show ?thesis using distinct_COLOR_KEYS_IN_ORDER by blast
qed

lemma bulk_hexes_two_tokens: "bulk_hexes ''#fff, #0A0b0C'' = [''#ffffff'', ''#0a0b0c'']"
  by code_simp

lemma bulk_hexes_no_token: "bulk_hexes ''rgb(1,2,3)'' = []"
  by code_simp

text \<open>
  The input \<^verbatim>\<open>rgb(1,2,3)\<close> has no token and leaves the default palette as it is; the
  input \<^verbatim>\<open>#fff, #0A0b0C\<close> has two, so the second key (water) receives the second token
  and the third key (waterways) keeps its default.
\<close>

theorem bulkApply_assigns_in_key_order_witness:
  "length (bulk_hexes ''rgb(1,2,3)'') = 0 \<and>
   applyBulkString ''rgb(1,2,3)'' DEFAULT_COLORS = DEFAULT_COLORS \<and>
   0 < length (bulk_hexes ''#fff, #0A0b0C'') \<and>
   applyBulkString ''#fff, #0A0b0C'' DEFAULT_COLORS (COLOR_KEYS_IN_ORDER ! 1) = ''#0a0b0c'' \<and>
   applyBulkString ''#fff, #0A0b0C'' DEFAULT_COLORS (COLOR_KEYS_IN_ORDER ! 2) = ''#68b8d8''"
proof -
  let ?raw = "''#fff, #0A0b0C''"
  have a: "length (bulk_hexes ''rgb(1,2,3)'') = 0" by (simp add: bulk_hexes_no_token)
  have b: "0 < length (bulk_hexes ?raw)" by (simp add: bulk_hexes_two_tokens)
  have c: "(1::nat) < min (length (bulk_hexes ?raw)) (length COLOR_KEYS_IN_ORDER)"
    by (simp add: bulk_hexes_two_tokens length_COLOR_KEYS_IN_ORDER)
  have d: "min (length (bulk_hexes ?raw)) (length COLOR_KEYS_IN_ORDER) \<le> (2::nat) \<and>
      (2::nat) < length COLOR_KEYS_IN_ORDER"
    by (simp add: bulk_hexes_two_tokens length_COLOR_KEYS_IN_ORDER)
  have e: "DEFAULT_COLORS (COLOR_KEYS_IN_ORDER ! 2) = ''#68b8d8''"
    by (simp add: COLOR_KEYS_IN_ORDER_list)
  from bulkApply_assigns_in_key_order [of "''rgb(1,2,3)''" DEFAULT_COLORS] a
  have 1: "applyBulkString ''rgb(1,2,3)'' DEFAULT_COLORS = DEFAULT_COLORS" by blast
  from bulkApply_assigns_in_key_order [of ?raw DEFAULT_COLORS] b c
  have "applyBulkString ?raw DEFAULT_COLORS (COLOR_KEYS_IN_ORDER ! 1) = bulk_hexes ?raw ! 1"
    by blast
  then have 2: "applyBulkString ?raw DEFAULT_COLORS (COLOR_KEYS_IN_ORDER ! 1) = ''#0a0b0c''"
    by (simp add: bulk_hexes_two_tokens)
  from bulkApply_assigns_in_key_order [of ?raw DEFAULT_COLORS] b d
  have "applyBulkString ?raw DEFAULT_COLORS (COLOR_KEYS_IN_ORDER ! 2) =
      DEFAULT_COLORS (COLOR_KEYS_IN_ORDER ! 2)"
    by blast
  with e have 3: "applyBulkString ?raw DEFAULT_COLORS (COLOR_KEYS_IN_ORDER ! 2) = ''#68b8d8''"
    by simp
  from a b 1 2 3 show ?thesis by blast
qed

subsection \<open>The values bulk import writes\<close>








subsection \<open>Single-key edits store the text as typed\<close>

lemma test_hex_3_FFF: "test_hex 3 ''#FFF''"
  by code_simp

lemma test_hex_6_ABCDEF: "test_hex 6 ''#ABCDEF''"
  by code_simp

lemma not_test_hex_FF: "\<not> (test_hex 3 ''#FF'' \<or> test_hex 6 ''#FF'')"
  by code_simp

lemma expand_token_FFF: "expand_token ''#FFF'' = ''#FFFFFF''"
  by code_simp

lemma expand_token_ABCDEF: "expand_token ''#ABCDEF'' = ''#abcdef''"
  by code_simp

text \<open>
  Claim C6, as stated, has a single-key edit store a normalised form of the accepted
  text. The source has one normalisation of a colour code, the one bulk import applies to
  a token (\<^verbatim>\<open>expand_token\<close>: three digits doubled to six, six digits lowercased), and
  \<^verbatim>\<open>handleHexChange\<close> does not apply it: it passes the text to \<^verbatim>\<open>updateColor\<close> as typed.
  For the accepted texts \<^verbatim>\<open>#FFF\<close> and \<^verbatim>\<open>#ABCDEF\<close> the value read back after the edit is
  not the normalised one.
\<close>

theorem hex_edit_not_normalized:
  "test_hex 3 ''#FFF'' \<and>
   colors (handleHexChange Water ''#FFF'' \<lparr>hexInput = ''#7ec8e3'', colors = DEFAULT_COLORS\<rparr>)
     Water \<noteq> expand_token ''#FFF'' \<and>
   test_hex 6 ''#ABCDEF'' \<and>
   colors (handleHexChange Water ''#ABCDEF'' \<lparr>hexInput = ''#7ec8e3'', colors = DEFAULT_COLORS\<rparr>)
     Water \<noteq> expand_token ''#ABCDEF''"
  by (simp add: test_hex_3_FFF test_hex_6_ABCDEF expand_token_FFF expand_token_ABCDEF
      handleHexChange_def updateColor_def Let_def)

text \<open>
  Claim C6, amended. For every key \<open>k\<close> and every text \<open>v\<close>: if \<open>v\<close> is \<^verbatim>\<open>#\<close> followed by
  exactly three or exactly six hex digits, the edit stores \<open>v\<close> itself at \<open>k\<close>, unchanged
  in case and length, so reading \<open>k\<close> afterwards gives \<open>v\<close>, and every other key keeps its
  value; if \<open>v\<close> is anything else, the whole palette is unchanged.
\<close>

theorem hex_edit_stores_text_as_typed:
  "(test_hex 3 v \<or> test_hex 6 v \<longrightarrow>
      colors (handleHexChange k v s) k = v \<and>
      (\<forall>k'. k' \<noteq> k \<longrightarrow> colors (handleHexChange k v s) k' = colors s k')) \<and>
   (\<not> (test_hex 3 v \<or> test_hex 6 v) \<longrightarrow> colors (handleHexChange k v s) = colors s)"
  by (simp add: handleHexChange_def updateColor_def Let_def)

theorem hex_edit_stores_text_as_typed_witness:
  "test_hex 3 ''#FFF'' \<and>
   colors (handleHexChange Water ''#FFF'' \<lparr>hexInput = ''#7ec8e3'', colors = DEFAULT_COLORS\<rparr>)
     Water = ''#FFF'' \<and>
   colors (handleHexChange Water ''#FFF'' \<lparr>hexInput = ''#7ec8e3'', colors = DEFAULT_COLORS\<rparr>)
     Bg = ''#e8edda'' \<and>
   colors (handleHexChange Water ''#FF'' \<lparr>hexInput = ''#7ec8e3'', colors = DEFAULT_COLORS\<rparr>)
     = DEFAULT_COLORS"
proof -
  let ?s = "\<lparr>hexInput = ''#7ec8e3'', colors = DEFAULT_COLORS\<rparr>"
  from hex_edit_stores_text_as_typed [of "''#FFF''" Water ?s] test_hex_3_FFF
  have a: "colors (handleHexChange Water ''#FFF'' ?s) Water = ''#FFF''"
    and b: "\<forall>k'. k' \<noteq> Water \<longrightarrow> colors (handleHexChange Water ''#FFF'' ?s) k' = colors ?s k'"
    by blast+
  from b have c: "colors (handleHexChange Water ''#FFF'' ?s) Bg = ''#e8edda''" by simp
  from hex_edit_stores_text_as_typed [of "''#FF''" Water ?s] not_test_hex_FF
  have d: "colors (handleHexChange Water ''#FF'' ?s) = DEFAULT_COLORS" by simp
  from test_hex_3_FFF a c d show ?thesis by blast
qed

section \<open>Properties of the theming engine\<close>

text \<open>Every branch of \<^verbatim>\<open>theme_layer\<close> changes the paint block only.\<close>

lemma layer_type_theme_layer: "layer_type (theme_layer C l) = layer_type l"
  by (simp add: theme_layer_def Let_def if_distrib [of layer_type]
        split del: if_split cong: if_cong)
     simp

subsection \<open>The branches that set the paint block\<close>

lemma theme_layer_background:
  "layer_type l = ''background'' \<Longrightarrow>
   paint (theme_layer C l) = Some [''background-color'' \<mapsto> JStr (C Bg)]"
  by (simp add: theme_layer_def Let_def split del: if_split)

lemma theme_layer_water_fill:
  "src_of l = ''water'' \<Longrightarrow> layer_type l = ''fill'' \<Longrightarrow>
   paint (theme_layer C l) =
     Some [''fill-color'' \<mapsto> JStr (C Water), ''fill-opacity'' \<mapsto> JNum 1]"
  by (simp add: theme_layer_def Let_def split del: if_split)

lemma theme_layer_building_fill:
  "src_of l = ''building'' \<Longrightarrow> layer_type l = ''fill'' \<Longrightarrow>
   \<not> startsWith (id_of l) ''park'' \<Longrightarrow>
   paint (theme_layer C l) =
     Some [''fill-color'' \<mapsto> JStr (C Building), ''fill-opacity'' \<mapsto> JNum 1]"
  by (simp add: theme_layer_def Let_def split del: if_split)

lemma theme_layer_aeroway_fill:
  "src_of l = ''aeroway'' \<Longrightarrow> layer_type l = ''fill'' \<Longrightarrow>
   \<not> startsWith (id_of l) ''park'' \<Longrightarrow>
   paint (theme_layer C l) = Some ((paint_of l)(''fill-color'' \<mapsto> JStr (C Aeroway)))"
  by (simp add: theme_layer_def Let_def split del: if_split)

text \<open>Four raw layers, each with paint of its own, and the constants the branches test.\<close>

lemma ex_water_src:
  "src_of \<lparr>layer_id = Some ''Water'', source_layer = Some ''water'', layer_type = ''fill'',
      paint = Some [''fill-color'' \<mapsto> JStr ''#a0c8f0'', ''fill-antialias'' \<mapsto> JBool True]\<rparr>
     = ''water''"
  by (simp add: src_of_def lower_or_empty_def) code_simp

lemma ex_building_src:
  "src_of \<lparr>layer_id = Some ''building'', source_layer = Some ''building'', layer_type = ''fill'',
      paint = Some [''fill-outline-color'' \<mapsto> JStr ''#dfdbd7'']\<rparr> = ''building''"
  by (simp add: src_of_def lower_or_empty_def) code_simp

lemma ex_building_id:
  "\<not> startsWith (id_of \<lparr>layer_id = Some ''building'', source_layer = Some ''building'',
      layer_type = ''fill'', paint = Some [''fill-outline-color'' \<mapsto> JStr ''#dfdbd7'']\<rparr>) ''park''"
  by (simp add: id_of_def lower_or_empty_def) code_simp

lemma ex_aeroway_src:
  "src_of \<lparr>layer_id = Some ''aeroway_fill'', source_layer = Some ''aeroway'',
      layer_type = ''fill'', paint = Some [''fill-opacity'' \<mapsto> JNum 0.7]\<rparr> = ''aeroway''"
  by (simp add: src_of_def lower_or_empty_def) code_simp

lemma ex_aeroway_id:
  "\<not> startsWith (id_of \<lparr>layer_id = Some ''aeroway_fill'', source_layer = Some ''aeroway'',
      layer_type = ''fill'', paint = Some [''fill-opacity'' \<mapsto> JNum 0.7]\<rparr>) ''park''"
  by (simp add: id_of_def lower_or_empty_def) code_simp

text \<open>
  Claim C1, as stated, counts the aeroway branch among those that discard the raw paint.
  The source writes \<^verbatim>\<open>l.paint = { ...l.paint, "fill-color": C.aeroway }\<close> there: an
  aeroway fill layer whose raw paint has \<^verbatim>\<open>fill-opacity: 0.7\<close> keeps that property in
  the themed layer, beside the theme's colour.
\<close>

theorem aeroway_fill_keeps_raw_paint:
  "paint (theme_layer DEFAULT_COLORS
      \<lparr>layer_id = Some ''aeroway_fill'', source_layer = Some ''aeroway'',
        layer_type = ''fill'', paint = Some [''fill-opacity'' \<mapsto> JNum 0.7]\<rparr>)
     = Some [''fill-opacity'' \<mapsto> JNum 0.7, ''fill-color'' \<mapsto> JStr ''#dcd8cc'']"
  using theme_layer_aeroway_fill [OF ex_aeroway_src _ ex_aeroway_id, of DEFAULT_COLORS]
  by (simp add: paint_of_def)

text \<open>
  Claim C1, amended. A layer taken by the background branch (type \<^verbatim>\<open>background\<close>), by the
  water branch (source-layer \<^verbatim>\<open>water\<close>, type \<^verbatim>\<open>fill\<close>) or by the fill case of the
  building branch (source-layer \<^verbatim>\<open>building\<close>, type \<^verbatim>\<open>fill\<close>, reached when the identifier
  does not start with \<^verbatim>\<open>park\<close>) leaves with a paint block that holds the theme's
  properties and nothing else: the palette colour and, for water and building, opacity 1.
  Nothing of the raw paint remains. A layer taken by the aeroway branch (source-layer
  \<^verbatim>\<open>aeroway\<close>, type \<^verbatim>\<open>fill\<close>, identifier not starting with \<^verbatim>\<open>park\<close>) keeps its raw
  paint, with \<^verbatim>\<open>fill-color\<close> set to the aeroway colour.
\<close>

theorem full_replacement_branches:
  "(layer_type l = ''background'' \<longrightarrow>
      paint (theme_layer C l) = Some [''background-color'' \<mapsto> JStr (C Bg)]) \<and>
   (src_of l = ''water'' \<and> layer_type l = ''fill'' \<longrightarrow>
      paint (theme_layer C l) =
        Some [''fill-color'' \<mapsto> JStr (C Water), ''fill-opacity'' \<mapsto> JNum 1]) \<and>
   (src_of l = ''building'' \<and> layer_type l = ''fill'' \<and> \<not> startsWith (id_of l) ''park'' \<longrightarrow>
      paint (theme_layer C l) =
        Some [''fill-color'' \<mapsto> JStr (C Building), ''fill-opacity'' \<mapsto> JNum 1]) \<and>
   (src_of l = ''aeroway'' \<and> layer_type l = ''fill'' \<and> \<not> startsWith (id_of l) ''park'' \<longrightarrow>
      paint (theme_layer C l) = Some ((paint_of l)(''fill-color'' \<mapsto> JStr (C Aeroway))))"
  using theme_layer_background [of l C] theme_layer_water_fill [of l C]
    theme_layer_building_fill [of l C] theme_layer_aeroway_fill [of l C]
  by blast

theorem full_replacement_branches_witness:
  "paint (theme_layer DEFAULT_COLORS
      \<lparr>layer_id = Some ''background'', source_layer = None, layer_type = ''background'',
        paint = Some [''background-color'' \<mapsto> JStr ''#f8f4f0'']\<rparr>)
     = Some [''background-color'' \<mapsto> JStr ''#e8edda''] \<and>
   paint (theme_layer DEFAULT_COLORS
      \<lparr>layer_id = Some ''Water'', source_layer = Some ''water'', layer_type = ''fill'',
        paint = Some [''fill-color'' \<mapsto> JStr ''#a0c8f0'', ''fill-antialias'' \<mapsto> JBool True]\<rparr>)
     = Some [''fill-color'' \<mapsto> JStr ''#7ec8e3'', ''fill-opacity'' \<mapsto> JNum 1] \<and>
   paint (theme_layer DEFAULT_COLORS
      \<lparr>layer_id = Some ''building'', source_layer = Some ''building'', layer_type = ''fill'',
        paint = Some [''fill-outline-color'' \<mapsto> JStr ''#dfdbd7'']\<rparr>)
     = Some [''fill-color'' \<mapsto> JStr ''#d8d2c4'', ''fill-opacity'' \<mapsto> JNum 1] \<and>
   paint (theme_layer DEFAULT_COLORS
      \<lparr>layer_id = Some ''aeroway_fill'', source_layer = Some ''aeroway'',
        layer_type = ''fill'', paint = Some [''fill-opacity'' \<mapsto> JNum 0.7]\<rparr>)
     = Some [''fill-opacity'' \<mapsto> JNum 0.7, ''fill-color'' \<mapsto> JStr ''#dcd8cc'']"
proof -
  let ?bg = "\<lparr>layer_id = Some ''background'', source_layer = None, layer_type = ''background'',
        paint = Some [''background-color'' \<mapsto> JStr ''#f8f4f0'']\<rparr>"
  let ?w = "\<lparr>layer_id = Some ''Water'', source_layer = Some ''water'', layer_type = ''fill'',
        paint = Some [''fill-color'' \<mapsto> JStr ''#a0c8f0'', ''fill-antialias'' \<mapsto> JBool True]\<rparr>"
  let ?b = "\<lparr>layer_id = Some ''building'', source_layer = Some ''building'', layer_type = ''fill'',
        paint = Some [''fill-outline-color'' \<mapsto> JStr ''#dfdbd7'']\<rparr>"
  let ?a = "\<lparr>layer_id = Some ''aeroway_fill'', source_layer = Some ''aeroway'',
        layer_type = ''fill'', paint = Some [''fill-opacity'' \<mapsto> JNum 0.7]\<rparr>"
  have 1: "paint (theme_layer DEFAULT_COLORS ?bg) = Some [''background-color'' \<mapsto> JStr ''#e8edda'']"
    using full_replacement_branches [of ?bg DEFAULT_COLORS] by simp
  have 2: "paint (theme_layer DEFAULT_COLORS ?w)
      = Some [''fill-color'' \<mapsto> JStr ''#7ec8e3'', ''fill-opacity'' \<mapsto> JNum 1]"
    using full_replacement_branches [of ?w DEFAULT_COLORS] ex_water_src by simp
  have 3: "paint (theme_layer DEFAULT_COLORS ?b)
      = Some [''fill-color'' \<mapsto> JStr ''#d8d2c4'', ''fill-opacity'' \<mapsto> JNum 1]"
    using full_replacement_branches [of ?b DEFAULT_COLORS] ex_building_src ex_building_id by simp
  have 4: "paint (theme_layer DEFAULT_COLORS ?a)
      = Some [''fill-opacity'' \<mapsto> JNum 0.7, ''fill-color'' \<mapsto> JStr ''#dcd8cc'']"
    using full_replacement_branches [of ?a DEFAULT_COLORS] ex_aeroway_src ex_aeroway_id
    by (simp add: paint_of_def)
  from 1 2 3 4 show ?thesis by blast
qed

subsection \<open>Symbol layers\<close>

text \<open>
  Claim C5. For every raw style document and every palette, no layer of the themed
  document has the type \<^verbatim>\<open>symbol\<close>: such layers are filtered out first, and theming a
  layer does not change its type.
\<close>

theorem no_symbol_layers:
  "\<forall>l \<in> set (layers (applyAppleStyle raw C)). layer_type l \<noteq> ''symbol''"
  by (auto simp: applyAppleStyle_def layer_type_theme_layer)

text \<open>A document with a label layer and a water layer: only the water layer is left.\<close>

theorem no_symbol_layers_witness:
  "layers (applyAppleStyle
      \<lparr>layers = [\<lparr>layer_id = Some ''place_label'', source_layer = Some ''place'',
                    layer_type = ''symbol'', paint = None\<rparr>,
                  \<lparr>layer_id = Some ''Water'', source_layer = Some ''water'',
                    layer_type = ''fill'', paint = None\<rparr>]\<rparr> DEFAULT_COLORS)
     = [theme_layer DEFAULT_COLORS \<lparr>layer_id = Some ''Water'', source_layer = Some ''water'',
          layer_type = ''fill'', paint = None\<rparr>] \<and>
   layer_type (theme_layer DEFAULT_COLORS \<lparr>layer_id = Some ''Water'',
      source_layer = Some ''water'', layer_type = ''fill'', paint = None\<rparr>) \<noteq> ''symbol''"
proof -
  let ?w = "\<lparr>layer_id = Some ''Water'', source_layer = Some ''water'',
      layer_type = ''fill'', paint = None\<rparr>"
  let ?s = "\<lparr>layer_id = Some ''place_label'', source_layer = Some ''place'',
      layer_type = ''symbol'', paint = None\<rparr>"
  have ls: "layers (applyAppleStyle \<lparr>layers = [?s, ?w]\<rparr> DEFAULT_COLORS)
      = [theme_layer DEFAULT_COLORS ?w]"
    by (simp add: applyAppleStyle_def)
  then have "theme_layer DEFAULT_COLORS ?w
      \<in> set (layers (applyAppleStyle \<lparr>layers = [?s, ?w]\<rparr> DEFAULT_COLORS))"
    by simp
  with no_symbol_layers [of "\<lparr>layers = [?s, ?w]\<rparr>" DEFAULT_COLORS]
  have "layer_type (theme_layer DEFAULT_COLORS ?w) \<noteq> ''symbol''" by blast
  with ls show ?thesis by blast
qed

section \<open>Properties of keyboard navigation\<close>

lemma issued_panBy: "issued (panBy d m) = issued m @ [PanBy (fst d) (snd d)]"
  by (simp add: panBy_def)

lemma issued_zoomTo: "issued (zoomTo z m) = issued m @ [ZoomTo z]"
  by (simp add: zoomTo_def)

text \<open>
  The commands of one tick, written out: a pan when the horizontal or the vertical keys
  do not cancel, a zoom in when \<^verbatim>\<open>+\<close> or \<^verbatim>\<open>=\<close> is held, a zoom out when \<^verbatim>\<open>-\<close> is held.
\<close>

lemma tick_commands_eq:
  "tick_commands m keys =
     (if keys = {} then []
      else
        (if (''ArrowLeft'' \<in> keys) \<noteq> (''ArrowRight'' \<in> keys)
            \<or> (''ArrowUp'' \<in> keys) \<noteq> (''ArrowDown'' \<in> keys)
         then [PanBy ((if ''ArrowLeft'' \<in> keys then - PAN else 0)
                       + (if ''ArrowRight'' \<in> keys then PAN else 0))
                     ((if ''ArrowUp'' \<in> keys then - PAN else 0)
                       + (if ''ArrowDown'' \<in> keys then PAN else 0))]
         else []) @
        (if ''+'' \<in> keys \<or> ''='' \<in> keys then [ZoomTo (zoom m + ZOOM)] else []) @
        (if ''-'' \<in> keys
         then [ZoomTo ((if ''+'' \<in> keys \<or> ''='' \<in> keys then zoom m + ZOOM else zoom m) - ZOOM)]
         else []))"
  by (simp add: tick_commands_def tick_def Let_def issued_panBy issued_zoomTo getZoom_def
        zoomTo_def panBy_def PAN_def)

lemma tick_extends_issued:
  "\<exists>m'. tick (Some m) keys = Some m' \<and> issued m' = issued m @ tick_commands m keys"
  by (simp add: tick_commands_def tick_def Let_def issued_panBy issued_zoomTo)

text \<open>
  Claim C3, as stated, allows one zoom command per tick. The two zoom tests of \<^verbatim>\<open>tick\<close>
  are separate \<^verbatim>\<open>if\<close> statements: with \<^verbatim>\<open>+\<close> and \<^verbatim>\<open>-\<close> both held, one tick calls
  \<^verbatim>\<open>zoomTo\<close> twice, first 0.03 up and then 0.03 down again.
\<close>

theorem tick_two_zoom_commands:
  "tick_commands \<lparr>zoom = 5/2, issued = []\<rparr> {''+'', ''-''} = [ZoomTo (253/100), ZoomTo (5/2)] \<and>
   length (filter is_zoom (tick_commands \<lparr>zoom = 5/2, issued = []\<rparr> {''+'', ''-''})) = 2"
  by (simp add: tick_commands_eq ZOOM_def)

text \<open>How many commands of each direction one tick issues, by the keys held.\<close>

lemma tick_zoom_ins:
  "zoom_ins (zoom m) (tick_commands m keys) = (if ''+'' \<in> keys \<or> ''='' \<in> keys then 1 else 0)"
  by (auto simp: tick_commands_eq ZOOM_def)

lemma tick_zoom_outs:
  "zoom_outs (zoom m) (tick_commands m keys) = (if ''-'' \<in> keys then 1 else 0)"
  by (auto simp: tick_commands_eq ZOOM_def)

lemma tick_zoom_count:
  "length (filter is_zoom (tick_commands m keys)) =
     (if ''+'' \<in> keys \<or> ''='' \<in> keys then 1 else 0) + (if ''-'' \<in> keys then 1 else 0)"
  by (auto simp: tick_commands_eq)

text \<open>
  Claim C3, amended. For every contents of the held-keys set, one tick issues at most one
  pan command, at most one zoom-in command and at most one zoom-out command, hence at
  most two zoom commands: exactly two when a zoom-in key (\<^verbatim>\<open>+\<close> or \<^verbatim>\<open>=\<close>) and \<^verbatim>\<open>-\<close> are
  held together, and at most one otherwise. A zoom-in command is issued exactly when
  \<^verbatim>\<open>+\<close> or \<^verbatim>\<open>=\<close> is held, a zoom-out command exactly when \<^verbatim>\<open>-\<close> is held, and every zoom
  command of the tick is one or the other. The commands counted are the ones the tick
  appends to the surface's list; without a map the tick issues nothing.
\<close>

theorem tick_command_counts:
  "tick None keys = None \<and>
   (\<exists>m'. tick (Some m) keys = Some m' \<and> issued m' = issued m @ tick_commands m keys) \<and>
   length (filter is_pan (tick_commands m keys)) \<le> 1 \<and>
   zoom_ins (zoom m) (tick_commands m keys) \<le> 1 \<and>
   zoom_outs (zoom m) (tick_commands m keys) \<le> 1 \<and>
   zoom_ins (zoom m) (tick_commands m keys) = (if ''+'' \<in> keys \<or> ''='' \<in> keys then 1 else 0) \<and>
   zoom_outs (zoom m) (tick_commands m keys) = (if ''-'' \<in> keys then 1 else 0) \<and>
   length (filter is_zoom (tick_commands m keys)) =
     zoom_ins (zoom m) (tick_commands m keys) + zoom_outs (zoom m) (tick_commands m keys) \<and>
   length (filter is_zoom (tick_commands m keys)) \<le> 2 \<and>
   (\<not> ((''+'' \<in> keys \<or> ''='' \<in> keys) \<and> ''-'' \<in> keys) \<longrightarrow>
      length (filter is_zoom (tick_commands m keys)) \<le> 1) \<and>
   ((''+'' \<in> keys \<or> ''='' \<in> keys) \<and> ''-'' \<in> keys \<longrightarrow>
      length (filter is_zoom (tick_commands m keys)) = 2)"
proof -
  have "tick None keys = None" by (simp add: tick_def)
  moreover note tick_extends_issued [of m keys]
  moreover have "length (filter is_pan (tick_commands m keys)) \<le> 1"
    by (simp add: tick_commands_eq)
  moreover have "zoom_ins (zoom m) (tick_commands m keys) \<le> 1"
    by (simp add: tick_zoom_ins)
  moreover have "zoom_outs (zoom m) (tick_commands m keys) \<le> 1"
    by (simp add: tick_zoom_outs)
  moreover note tick_zoom_ins [of m keys] tick_zoom_outs [of m keys]
  moreover have "length (filter is_zoom (tick_commands m keys)) =
      zoom_ins (zoom m) (tick_commands m keys) + zoom_outs (zoom m) (tick_commands m keys)"
    by (simp add: tick_zoom_ins tick_zoom_outs tick_zoom_count)
  moreover have "length (filter is_zoom (tick_commands m keys)) \<le> 2"
    by (simp add: tick_zoom_count)
  moreover have "\<not> ((''+'' \<in> keys \<or> ''='' \<in> keys) \<and> ''-'' \<in> keys) \<longrightarrow>
      length (filter is_zoom (tick_commands m keys)) \<le> 1"
    by (simp add: tick_zoom_count)
  moreover have "(''+'' \<in> keys \<or> ''='' \<in> keys) \<and> ''-'' \<in> keys \<longrightarrow>
      length (filter is_zoom (tick_commands m keys)) = 2"
    by (simp add: tick_zoom_count)
  ultimately show ?thesis by blast
qed

text \<open>
  With \<^verbatim>\<open>ArrowUp\<close> and \<^verbatim>\<open>=\<close> held a tick issues one zoom command, a zoom in; with \<^verbatim>\<open>=\<close>
  and \<^verbatim>\<open>-\<close> held it issues two, one in each direction.
\<close>

theorem tick_command_counts_witness:
  "length (filter is_pan (tick_commands \<lparr>zoom = 5/2, issued = []\<rparr> {''ArrowUp'', ''=''})) \<le> 1 \<and>
   length (filter is_zoom (tick_commands \<lparr>zoom = 5/2, issued = []\<rparr> {''ArrowUp'', ''=''})) \<le> 1 \<and>
   zoom_ins (5/2) (tick_commands \<lparr>zoom = 5/2, issued = []\<rparr> {''ArrowUp'', ''=''}) = 1 \<and>
   zoom_outs (5/2) (tick_commands \<lparr>zoom = 5/2, issued = []\<rparr> {''ArrowUp'', ''=''}) = 0 \<and>
   length (filter is_zoom (tick_commands \<lparr>zoom = 5/2, issued = []\<rparr> {''='', ''-''})) = 2 \<and>
   zoom_ins (5/2) (tick_commands \<lparr>zoom = 5/2, issued = []\<rparr> {''='', ''-''}) = 1 \<and>
   zoom_outs (5/2) (tick_commands \<lparr>zoom = 5/2, issued = []\<rparr> {''='', ''-''}) = 1"
proof -
  let ?m = "\<lparr>zoom = 5/2, issued = []\<rparr>"
  have z: "zoom ?m = 5/2" by simp
  have a: "\<not> ((''+'' \<in> {''ArrowUp'', ''=''} \<or> ''='' \<in> {''ArrowUp'', ''=''})
      \<and> ''-'' \<in> {''ArrowUp'', ''=''})"
    by simp
  have a1: "''+'' \<in> {''ArrowUp'', ''=''} \<or> ''='' \<in> {''ArrowUp'', ''=''}" by simp
  have a2: "''-'' \<notin> {''ArrowUp'', ''=''}" by simp
  have b: "(''+'' \<in> {''='', ''-''} \<or> ''='' \<in> {''='', ''-''}) \<and> ''-'' \<in> {''='', ''-''}"
    by simp
  note t1 = tick_command_counts [of "{''ArrowUp'', ''=''}" ?m, unfolded z]
  note t2 = tick_command_counts [of "{''='', ''-''}" ?m, unfolded z]
  from t1 a have 1: "length (filter is_pan (tick_commands ?m {''ArrowUp'', ''=''})) \<le> 1"
    and 2: "length (filter is_zoom (tick_commands ?m {''ArrowUp'', ''=''})) \<le> 1"
    by blast+
  from t1 a1 have 3: "zoom_ins (5/2) (tick_commands ?m {''ArrowUp'', ''=''}) = 1"
    by presburger
  from t1 a2 have 4: "zoom_outs (5/2) (tick_commands ?m {''ArrowUp'', ''=''}) = 0"
    by presburger
  from t2 b have 5: "length (filter is_zoom (tick_commands ?m {''='', ''-''})) = 2"
    by blast
  from t2 b have 6: "zoom_ins (5/2) (tick_commands ?m {''='', ''-''}) = 1"
    by presburger
  from t2 b have 7: "zoom_outs (5/2) (tick_commands ?m {''='', ''-''}) = 1"
    by presburger
  from 1 2 3 4 5 6 7 show ?thesis by blast
qed

section \<open>Properties of the capture pipeline\<close>

text \<open>
  Claim C2 says that when the canvas yields no blob, the capturing flag is cleared and no
  download is triggered. The callback returns at \<^verbatim>\<open>if (!blob) return;\<close>, before
  \<^verbatim>\<open>setIsCapturing(false)\<close>: after \<^verbatim>\<open>capture\<close> on a mounted map and a \<^verbatim>\<open>null\<close> blob no
  download has been added, but the flag that \<^verbatim>\<open>capture\<close> set is still set. With a blob the
  same callback does clear it.
\<close>

theorem capture_null_blob_keeps_flag:
  "isCapturing (toBlob_callback None (capture True s)) = True \<and>
   downloads (toBlob_callback None (capture True s)) = downloads s \<and>
   isCapturing (toBlob_callback (Some b) (capture True s)) = False"
  by (simp add: toBlob_callback_def capture_def)

section \<open>Properties of the debounced search\<close>










section \<open>Properties of selection visibility tracking\<close>

text \<open>Once name and coordinate are both cleared, no camera event sets either again.\<close>

lemma camera_step_cleared:
  "selectedName s = None \<Longrightarrow> searchedCoords s = None \<Longrightarrow>
   selectedName (camera_step e s) = None \<and> searchedCoords (camera_step e s) = None"
  by (cases e) (simp_all add: handleMove_def moveend_def Let_def)

lemma camera_run_cleared:
  "selectedName s = None \<Longrightarrow> searchedCoords s = None \<Longrightarrow>
   selectedName (camera_run es s) = None \<and> searchedCoords (camera_run es s) = None"
  by (induction es arbitrary: s) (simp_all add: camera_step_cleared)

text \<open>
  Claim C9. On a camera move that is not part of an active fly-to (\<^verbatim>\<open>flyingRef\<close> not set),
  with a selection active at the coordinate \<open>c\<close> and \<open>c\<close> outside the current bounds of the
  map that raised the event, \<^verbatim>\<open>handleMove\<close> clears both the selection name and the
  coordinate. A selection is active when \<^verbatim>\<open>searchedCoordsRef\<close> holds a coordinate, which
  is what the source tests. After that, no
  sequence of later camera events restores either, whatever their bounds contain, so a
  move that brings \<open>c\<close> back into view leaves the selection cleared.
\<close>

theorem selection_cleared_one_way:
  assumes "\<not> flying s" and "searchedCoords s = Some c" and "\<not> contains c"
  shows "selectedName (handleMove v (Some contains) s) = None \<and>
         searchedCoords (handleMove v (Some contains) s) = None \<and>
         (\<forall>es. selectedName (camera_run es (handleMove v (Some contains) s)) = None \<and>
               searchedCoords (camera_run es (handleMove v (Some contains) s)) = None)"
proof -
  have 1: "selectedName (handleMove v (Some contains) s) = None"
    and 2: "searchedCoords (handleMove v (Some contains) s) = None"
    using assms by (simp_all add: handleMove_def Let_def)
  from camera_run_cleared [OF 1 2] 1 2 show ?thesis by simp
qed

text \<open>
  The selection at longitude 14 leaves a view that ends at longitude 10 and is cleared;
  it stays cleared through later moves whose bounds contain it again.
\<close>

theorem selection_cleared_one_way_witness:
  "selectedName (handleMove (1::nat) (Some (\<lambda>p. fst p \<le> 10))
      \<lparr>viewState = 0, selectedName = Some ''Linz'', searchedCoords = Some (14, 48),
        flying = False\<rparr>) = None \<and>
   searchedCoords
     (camera_run [Move 2 (Some (\<lambda>p. fst p \<le> 20)), MoveEnd, Move 3 (Some (\<lambda>p. True))]
       (handleMove (1::nat) (Some (\<lambda>p. fst p \<le> 10))
         \<lparr>viewState = 0, selectedName = Some ''Linz'', searchedCoords = Some (14, 48),
           flying = False\<rparr>)) = None \<and>
   selectedName
     (camera_run [Move 2 (Some (\<lambda>p. fst p \<le> 20)), MoveEnd, Move 3 (Some (\<lambda>p. True))]
       (handleMove (1::nat) (Some (\<lambda>p. fst p \<le> 10))
         \<lparr>viewState = 0, selectedName = Some ''Linz'', searchedCoords = Some (14, 48),
           flying = False\<rparr>)) = None"
proof -
  let ?s = "\<lparr>viewState = 0::nat, selectedName = Some ''Linz'', searchedCoords = Some (14, 48),
      flying = False\<rparr>"
  have 1: "\<not> flying ?s" by simp
  have 2: "searchedCoords ?s = Some (14, 48)" by simp
  have 3: "\<not> (\<lambda>p::lnglat. fst p \<le> 10) (14, 48)" by simp
  from selection_cleared_one_way [of ?s "(14, 48)" "\<lambda>p. fst p \<le> 10" 1, OF 1 2 3]
  show ?thesis by blast
qed

end
